theory Spec2Isabelle
  imports Main "HOL-Library.Sublist"
begin

section \<open>JavaScript values used by the client\<close>

text \<open>
  A value that may be \<^verbatim>\<open>undefined\<close> or \<^verbatim>\<open>null\<close> is an option; both are
  \<open>None\<close>, since the code only ever tests them for truthiness. A string is a
  list of characters. \<^verbatim>\<open>!s\<close> holds of a missing value and of the empty string.
\<close>

definition truthy :: "string option \<Rightarrow> bool" where
  "truthy v = (case v of None \<Rightarrow> False | Some s \<Rightarrow> s \<noteq> [])"

text \<open>\<^verbatim>\<open>a || b\<close> on possibly missing strings: \<open>a\<close> when it is truthy, otherwise \<open>b\<close>.\<close>

definition js_or :: "string option \<Rightarrow> string option \<Rightarrow> string option" where
  "js_or a b = (if truthy a then a else b)"

text \<open>\<^verbatim>\<open>a || 'literal'\<close>: the result is a string.\<close>

definition or_else :: "string option \<Rightarrow> string \<Rightarrow> string" where
  "or_else a d = (case a of None \<Rightarrow> d | Some s \<Rightarrow> if s = [] then d else s)"

text \<open>\<^verbatim>\<open>s.includes(t)\<close>, \<^verbatim>\<open>s.endsWith(t)\<close> and \<^verbatim>\<open>s.split('@')[0]\<close>.\<close>

definition str_includes :: "string \<Rightarrow> string \<Rightarrow> bool" where
  "str_includes s t = sublist t s"

definition endsWith :: "string \<Rightarrow> string \<Rightarrow> bool" where
  "endsWith s t = suffix t s"

definition before_at :: "string \<Rightarrow> string" where
  "before_at s = takeWhile (\<lambda>c. c \<noteq> CHR ''@'') s"

section \<open>server.cjs: cache headers of the static middleware\<close>

text \<open>
  The response as far as \<^verbatim>\<open>setHeaders\<close> touches it: its header table.
  \<^verbatim>\<open>res.setHeader(name, value)\<close> overwrites the entry.
\<close>

type_synonym headers = "string \<rightharpoonup> string"

definition setHeader :: "string \<Rightarrow> string \<Rightarrow> headers \<Rightarrow> headers" where
  "setHeader name v res = res(name \<mapsto> v)"

text \<open>
  \<^verbatim>\<open>path.match(/\.(js|css)$/)\<close>: without the \<^verbatim>\<open>m\<close> flag, \<^verbatim>\<open>$\<close> matches at the
  end of the input only, so the test is one on the last characters of the path.
\<close>

definition matches_js_css :: "string \<Rightarrow> bool" where
  "matches_js_css p = (endsWith p ''.js'' \<or> endsWith p ''.css'')"

text \<open>The callback runs its two tests one after the other; the second is no \<^verbatim>\<open>else\<close>.\<close>

definition setHeaders :: "headers \<Rightarrow> string \<Rightarrow> headers" where
  "setHeaders res p =
     (let res1 = (if endsWith p ''.html''
                  then setHeader ''Cache-Control'' ''public, max-age=0, must-revalidate'' res
                  else res)
      in if matches_js_css p
         then setHeader ''Cache-Control'' ''public, max-age=31536000, immutable'' res1
         else res1)"

text \<open>
  What Express does with a file it sends, as far as \<open>Cache-Control\<close> goes; this is
  the library's behaviour, not code of the repository. It first runs the
  \<^verbatim>\<open>setHeaders\<close> callback, when one was given, and then sets
  \<open>Cache-Control\<close> to its own value unless the header is set by then. Its own
  value is \<open>public, max-age=\<close> with the configured \<^verbatim>\<open>maxAge\<close> in seconds: one year
  for the static middleware (\<^verbatim>\<open>maxAge: '1y'\<close>), zero for \<^verbatim>\<open>res.sendFile\<close>, which is
  called without options.
\<close>

definition send_file ::
  "string \<Rightarrow> (headers \<Rightarrow> string \<Rightarrow> headers) option \<Rightarrow> string \<Rightarrow> headers \<Rightarrow> headers" where
  "send_file default_cc cb file res =
     (let res1 = (case cb of None \<Rightarrow> res | Some f \<Rightarrow> f res file)
      in if \<not> truthy (res1 ''Cache-Control'')
         then setHeader ''Cache-Control'' default_cc res1
         else res1)"

datatype reply =
    SentFile string headers   \<comment> \<open>the file sent and the headers of the response\<close>
  | ApiNotFound               \<comment> \<open>\<^verbatim>\<open>res.status(404).json({ error: 'API route not found' })\<close>\<close>

text \<open>
  The middleware chain of \<^verbatim>\<open>server.cjs\<close> after compression. \<open>static_lookup\<close> is
  the file system as the static middleware sees it: the file under \<^verbatim>\<open>dist\<close> that a
  request path resolves to, if any. A request it does not resolve falls through to
  the catch-all handler, which answers 404 under \<^verbatim>\<open>/api\<close> and otherwise sends
  \<^verbatim>\<open>path.join(__dirname, 'dist', 'index.html')\<close>.
\<close>

definition server :: "string \<Rightarrow> (string \<rightharpoonup> string) \<Rightarrow> string \<Rightarrow> headers \<Rightarrow> reply" where
  "server dirname static_lookup req_path res =
     (case static_lookup req_path of
        Some file \<Rightarrow>
          SentFile file (send_file ''public, max-age=31536000'' (Some setHeaders) file res)
      | None \<Rightarrow>
          if prefix ''/api'' req_path then ApiNotFound
          else SentFile (dirname @ ''/dist/index.html'')
                 (send_file ''public, max-age=0'' None (dirname @ ''/dist/index.html'') res))"

section \<open>The browser and the remote API, as the pages use them\<close>

text \<open>
  Everything a handler does to the outside is recorded in one record: the two
  storages, and the calls of \<^verbatim>\<open>navigate\<close>, of \<^verbatim>\<open>toast.error\<close> and of the API
  services in the order they were made. Calls of \<^verbatim>\<open>console.log\<close> are left out.
\<close>

datatype nav_options =
    NoOptions
  | Replace                        \<comment> \<open>\<^verbatim>\<open>{ replace: true }\<close>\<close>
  | VerifyState string bool bool   \<comment> \<open>\<^verbatim>\<open>{ state: { regNo, fromLogin, otpAlreadySent } }\<close>\<close>

datatype toast = ToastError string "nat option"   \<comment> \<open>message and \<^verbatim>\<open>duration\<close>, when given\<close>

datatype request =
    LoginRequest string string     \<comment> \<open>\<^verbatim>\<open>authAPI.login(email, password)\<close>\<close>
  | RequestOTP string              \<comment> \<open>\<^verbatim>\<open>verificationAPI.requestOTP(regNo)\<close>\<close>
  | GetBallot string               \<comment> \<open>\<^verbatim>\<open>votesAPI.getBallot(token)\<close>\<close>

record browser =
  localStorage :: "string \<rightharpoonup> string"
  sessionStorage :: "string \<rightharpoonup> string"
  navigations :: "(string \<times> nav_options) list"
  toasts :: "toast list"
  requests :: "request list"

definition getItem :: "browser \<Rightarrow> string \<Rightarrow> string option" where
  "getItem w k = localStorage w k"

definition setItem :: "string \<Rightarrow> string \<Rightarrow> browser \<Rightarrow> browser" where
  "setItem k v w = w\<lparr>localStorage := (localStorage w)(k \<mapsto> v)\<rparr>"

definition removeItem :: "string \<Rightarrow> browser \<Rightarrow> browser" where
  "removeItem k w = w\<lparr>localStorage := (localStorage w)(k := None)\<rparr>"

definition session_setItem :: "string \<Rightarrow> string \<Rightarrow> browser \<Rightarrow> browser" where
  "session_setItem k v w = w\<lparr>sessionStorage := (sessionStorage w)(k \<mapsto> v)\<rparr>"

definition navigate :: "string \<Rightarrow> nav_options \<Rightarrow> browser \<Rightarrow> browser" where
  "navigate p opts w = w\<lparr>navigations := navigations w @ [(p, opts)]\<rparr>"

definition toast_error :: "string \<Rightarrow> nat option \<Rightarrow> browser \<Rightarrow> browser" where
  "toast_error msg dur w = w\<lparr>toasts := toasts w @ [ToastError msg dur]\<rparr>"

definition call :: "request \<Rightarrow> browser \<Rightarrow> browser" where
  "call r w = w\<lparr>requests := requests w @ [r]\<rparr>"

text \<open>
  An awaited API call either resolves with a value or rejects with an error object.
  The handlers read four things of the error, each of which may be missing:
  \<^verbatim>\<open>err.code\<close>, \<^verbatim>\<open>err.response?.status\<close>, \<^verbatim>\<open>err.response?.data?.error\<close> and
  \<^verbatim>\<open>err.message\<close>.
\<close>

record api_error =
  err_code :: "string option"
  err_status :: "nat option"
  err_data_error :: "string option"
  err_message :: "string option"

datatype 'a outcome = Resolved 'a | Rejected api_error

text \<open>
  The user object of a login response. Its declaration is in the API service, which
  is not part of the sources at hand; the fields are the ones the pages read.
  \<^verbatim>\<open>name\<close>, \<^verbatim>\<open>role\<close> and \<^verbatim>\<open>status\<close> may be missing, \<^verbatim>\<open>email\<close> is dereferenced
  without a test.
\<close>

record user =
  name :: "string option"
  user_email :: string
  role :: "string option"
  status :: "string option"

record login_response =
  token :: string
  user :: user

text \<open>
  \<^verbatim>\<open>JSON.stringify\<close> of the two objects the pages store, and \<^verbatim>\<open>Date.now()\<close>,
  are given from outside.
\<close>

record js_env =
  stringify_user :: "user \<Rightarrow> string"
  stringify_welcome :: "string \<Rightarrow> int \<Rightarrow> string"
  now :: int

text \<open>Component state. The three pages each hold a \<^verbatim>\<open>loading\<close> flag.\<close>

record loading_state =
  loading :: bool

record form_state = loading_state +
  error :: string

record home_state = form_state +
  showPassword :: bool
  isVoter :: "bool option"

section \<open>components/auth/Login.tsx\<close>

record LoginFormData =
  email :: string
  password :: string

text \<open>The chain of tests in the \<^verbatim>\<open>catch\<close> block, in its order.\<close>

definition login_error_message :: "api_error \<Rightarrow> string" where
  "login_error_message err =
     (if err_code err = Some ''ECONNREFUSED'' \<or> err_code err = Some ''ERR_NETWORK''
      then ''Cannot connect to server. Please check if the backend is running.''
      else if err_status err = Some 401
      then or_else (err_data_error err) ''Invalid email or password.''
      else if err_status err = Some 500
      then ''Server error. Please try again later.''
      else if truthy (err_data_error err) then the (err_data_error err)
      else if truthy (err_message err) then the (err_message err)
      else ''Login failed. Please try again.'')"

text \<open>The emoji are written as the bytes of their UTF-8 encoding.\<close>

definition Login_welcomeEmoji :: "string option \<Rightarrow> string" where
  "Login_welcomeEmoji r =
     (if r = Some ''ADMIN'' then [CHR 0xF0, CHR 0x9F, CHR 0x91, CHR 0x91]
      else if r = Some ''OFFICER'' then [CHR 0xF0, CHR 0x9F, CHR 0x93, CHR 0x8B]
      else [CHR 0xF0, CHR 0x9F, CHR 0x8E, CHR 0xAF])"

definition welcome_text :: "string \<Rightarrow> string \<Rightarrow> string" where
  "welcome_text userName emoji = ''Welcome back, '' @ userName @ ''! '' @ emoji"

text \<open>The \<^verbatim>\<open>switch (role)\<close> of the Login component.\<close>

definition Login_redirect :: "string option \<Rightarrow> browser \<Rightarrow> browser" where
  "Login_redirect r w =
     (if r = Some ''ADMIN'' then navigate ''/admin/dashboard'' NoOptions w
      else if r = Some ''OFFICER'' then navigate ''/officer/dashboard'' NoOptions w
      else if r = Some ''CANDIDATE'' then navigate ''/candidate/dashboard'' NoOptions w
      else navigate ''/'' NoOptions w)"

text \<open>
  \<^verbatim>\<open>onSubmit\<close>. The outcome of the awaited \<^verbatim>\<open>authAPI.login\<close> is an argument; a
  rejection enters the \<^verbatim>\<open>catch\<close> block, and the \<^verbatim>\<open>finally\<close> block ends every path.
\<close>

definition Login_onSubmit ::
  "js_env \<Rightarrow> LoginFormData \<Rightarrow> login_response outcome \<Rightarrow>
   form_state \<times> browser \<Rightarrow> form_state \<times> browser" where
  "Login_onSubmit env data result = (\<lambda>(st, w).
     let st1 = st\<lparr>error := [], loading := True\<rparr>;
         w1 = call (LoginRequest (email data) (password data)) w
     in case result of
          Resolved response \<Rightarrow>
            let w2 = setItem ''token'' (token response) w1;
                w3 = setItem ''user'' (stringify_user env (user response)) w2;
                userName = or_else (name (user response)) (before_at (user_email (user response)));
                welcomeEmoji = Login_welcomeEmoji (role (user response));
                w4 = setItem ''welcomeMessage''
                       (stringify_welcome env (welcome_text userName welcomeEmoji) (now env)) w3;
                w5 = Login_redirect (role (user response)) w4
            in (st1\<lparr>loading := False\<rparr>, w5)
        | Rejected err \<Rightarrow>
            (st1\<lparr>error := login_error_message err, loading := False\<rparr>, w1))"

section \<open>The unified login page (HomePage)\<close>

record UnifiedLoginFormData =
  form_identifier :: string   \<comment> \<open>\<^verbatim>\<open>identifier\<close>\<close>
  opt_password :: "string option"   \<comment> \<open>\<^verbatim>\<open>password: z.string().optional()\<close>\<close>

definition isRegistrationNumber :: "string \<Rightarrow> bool" where
  "isRegistrationNumber input = (if str_includes input ''@'' then False else True)"

definition deactivated_message :: string where
  "deactivated_message =
     ''Your account has been deactivated. Please contact the administrator for assistance.''"

text \<open>The emoji literals of this file, byte for byte as the file has them.\<close>

definition HomePage_welcomeEmoji :: "string option \<Rightarrow> string" where
  "HomePage_welcomeEmoji r =
     (if r = Some ''ADMIN''
      then [CHR 0xEF, CHR 0xA3, CHR 0xBF, CHR 0xC3, CHR 0xBC, CHR 0xC3, CHR 0xAB, CHR 0xC3, CHR 0xAB]
      else if r = Some ''OFFICER''
      then [CHR 0xEF, CHR 0xA3, CHR 0xBF, CHR 0xC3, CHR 0xBC, CHR 0xC3, CHR 0xAC, CHR 0xC3, CHR 0xA3]
      else [CHR 0xEF, CHR 0xA3, CHR 0xBF, CHR 0xC3, CHR 0xBC, CHR 0xC3, CHR 0xA9, CHR 0xC3, CHR 0x98])"

definition HomePage_redirect :: "string option \<Rightarrow> browser \<Rightarrow> browser" where
  "HomePage_redirect r w =
     (if r = Some ''ADMIN'' then navigate ''/admin/dashboard'' Replace w
      else if r = Some ''OFFICER'' then navigate ''/officer/dashboard'' Replace w
      else if r = Some ''CANDIDATE'' then navigate ''/candidate/dashboard'' Replace w
      else navigate ''/'' Replace w)"

text \<open>The outer \<^verbatim>\<open>catch\<close> block.\<close>

definition HomePage_error_message :: "api_error \<Rightarrow> string" where
  "HomePage_error_message err =
     (let errorMessage = or_else (err_data_error err) ''Login failed. Please try again.''
      in if str_includes errorMessage ''inactive'' \<or> str_includes errorMessage ''deactivated''
         then deactivated_message
         else errorMessage)"

text \<open>
  \<^verbatim>\<open>onSubmit\<close>. The outcomes of the two awaited calls are arguments; a run reads the
  one of the call it makes. The voter branch has a \<^verbatim>\<open>try\<close> of its own around the
  OTP request. \<^verbatim>\<open>return\<close> inside the outer \<^verbatim>\<open>try\<close> still runs \<^verbatim>\<open>finally\<close>.
\<close>

definition HomePage_onSubmit ::
  "js_env \<Rightarrow> UnifiedLoginFormData \<Rightarrow> unit outcome \<Rightarrow> login_response outcome \<Rightarrow>
   home_state \<times> browser \<Rightarrow> home_state \<times> browser" where
  "HomePage_onSubmit env data otp_result login_result = (\<lambda>(st, w).
     let st1 = st\<lparr>error := [], loading := True\<rparr>;
         isRegNo = isRegistrationNumber (form_identifier data)
     in if isRegNo then
          (let w1 = call (RequestOTP (form_identifier data)) w
           in case otp_result of
                Resolved _ \<Rightarrow>
                  let w2 = session_setItem ''pendingRegNo'' (form_identifier data) w1;
                      w3 = session_setItem ''otpAlreadySent'' ''true'' w2;
                      w4 = navigate ''/verify'' (VerifyState (form_identifier data) True True) w3
                  in (st1\<lparr>loading := False\<rparr>, w4)
              | Rejected err \<Rightarrow>
                  (st1\<lparr>error := or_else (err_data_error err) ''Failed to send OTP. Please try again.'',
                       loading := False\<rparr>, w1))
        else if \<not> truthy (opt_password data) then
          (st1\<lparr>error := ''Password is required for email login'', loading := False\<rparr>, w)
        else
          (let w1 = call (LoginRequest (form_identifier data) (the (opt_password data))) w
           in case login_result of
                Resolved response \<Rightarrow>
                  if role (user response) = Some ''OFFICER'' \<and>
                     status (user response) = Some ''INACTIVE''
                  then (st1\<lparr>error := deactivated_message, loading := False\<rparr>,
                        removeItem ''user'' (removeItem ''token'' w1))
                  else
                    let w2 = setItem ''token'' (token response) w1;
                        w3 = setItem ''user'' (stringify_user env (user response)) w2;
                        userName = or_else (name (user response))
                                     (before_at (user_email (user response)));
                        welcomeEmoji = HomePage_welcomeEmoji (role (user response));
                        w4 = setItem ''welcomeMessage''
                               (stringify_welcome env (welcome_text userName welcomeEmoji) (now env)) w3;
                        w5 = HomePage_redirect (role (user response)) w4
                    in (st1\<lparr>loading := False\<rparr>, w5)
              | Rejected err \<Rightarrow>
                  (st1\<lparr>error := HomePage_error_message err, loading := False\<rparr>, w1)))"

section \<open>The ballot page (VotingPage)\<close>

record Position =
  pos_id :: string
  pos_name :: string
  seats :: int
  votingOpens :: string
  votingCloses :: string

record position_ref =
  ref_id :: string
  ref_name :: string

record Candidate =
  cand_id :: string
  cand_name :: string
  program :: string
  photoUrl :: "string option"
  cand_status :: string
  cand_position :: position_ref

record BallotData =
  positions :: "Position list"
  candidates :: "Candidate list"

text \<open>The response of \<^verbatim>\<open>votesAPI.getBallot\<close>: either list may be missing.\<close>

record ballot_response =
  resp_positions :: "Position list option"
  resp_candidates :: "Candidate list option"

record voting_state = loading_state +
  ballotToken :: string
  submitting :: bool
  ballotData :: "BallotData option"
  votes :: "string \<rightharpoonup> string"

text \<open>\<^verbatim>\<open>location.state\<close> may be null; \<^verbatim>\<open>location.state?.ballotToken\<close> is then undefined.\<close>

record nav_state =
  state_ballotToken :: "string option"

record location =
  loc_state :: "nav_state option"

definition location_ballotToken :: "location \<Rightarrow> string option" where
  "location_ballotToken loc =
     (case loc_state loc of None \<Rightarrow> None | Some s \<Rightarrow> state_ballotToken s)"

text \<open>\<^verbatim>\<open>xs || []\<close> and \<^verbatim>\<open>xs?.length\<close> compared with a number.\<close>

definition or_empty :: "'a list option \<Rightarrow> 'a list" where
  "or_empty xs = (case xs of None \<Rightarrow> [] | Some ys \<Rightarrow> ys)"

definition no_candidates_warning :: "ballot_response \<Rightarrow> bool" where
  "no_candidates_warning r =
     ((case resp_positions r of None \<Rightarrow> False | Some ps \<Rightarrow> length ps > 0) \<and>
      (case resp_candidates r of None \<Rightarrow> False | Some cs \<Rightarrow> length cs = 0))"

text \<open>
  Modelled from the spec: the rest of \<^verbatim>\<open>loadBallot\<close>. The source at hand breaks off
  inside the 401/400 branch of the \<^verbatim>\<open>catch\<close> block, within the argument of
  \<^verbatim>\<open>navigate\<close>; the branch for the other failures is missing. The spec: any other
  failure is surfaced as a transient, retryable notification without losing the user's
  in-progress selections. The wording of the notification is not known and is an
  argument.
\<close>

definition loadBallot_other_failure ::
  "string \<Rightarrow> voting_state \<times> browser \<Rightarrow> voting_state \<times> browser" where
  "loadBallot_other_failure msg = (\<lambda>(st, w). (st, toast_error msg None w))"

text \<open>
  \<^verbatim>\<open>loadBallot\<close>, as far as the source goes: the \<^verbatim>\<open>try\<close> body and the 401/400
  branch of the \<^verbatim>\<open>catch\<close> block, whose \<^verbatim>\<open>navigate\<close> is taken to go to
  \<^verbatim>\<open>/verify\<close>, the characters the source still has. What follows the \<^verbatim>\<open>try\<close>
  statement is not modelled.
\<close>

definition loadBallot ::
  "string \<Rightarrow> string \<Rightarrow> ballot_response outcome \<Rightarrow>
   voting_state \<times> browser \<Rightarrow> voting_state \<times> browser" where
  "loadBallot msg tok result = (\<lambda>(st, w).
     let st1 = st\<lparr>loading := True\<rparr>;
         w1 = call (GetBallot tok) w
     in case result of
          Resolved ballotResponse \<Rightarrow>
            let st2 = st1\<lparr>ballotData := Some \<lparr>positions = or_empty (resp_positions ballotResponse),
                                                candidates = or_empty (resp_candidates ballotResponse)\<rparr>\<rparr>
            in if no_candidates_warning ballotResponse
               then (st2, toast_error ''No approved candidates available for voting yet.'' (Some 5000) w1)
               else (st2, w1)
        | Rejected err \<Rightarrow>
            if err_status err = Some 401 \<or> err_status err = Some 400
            then (st1, navigate ''/verify'' NoOptions
                         (removeItem ''ballotToken''
                            (toast_error ''Invalid or expired ballot token. Please verify again.'' None w1)))
            else loadBallot_other_failure msg (st1, w1))"

text \<open>
  The effect that runs when the page mounts. It hands the outcome of the ballot
  request, and the wording of the notification for other failures, on to
  \<^verbatim>\<open>loadBallot\<close>.
\<close>

definition VotingPage_mount ::
  "string \<Rightarrow> location \<Rightarrow> ballot_response outcome \<Rightarrow>
   voting_state \<times> browser \<Rightarrow> voting_state \<times> browser" where
  "VotingPage_mount msg loc result = (\<lambda>(st, w).
     let tok = js_or (location_ballotToken loc) (getItem w ''ballotToken'')
     in if \<not> truthy tok
        then (st, navigate ''/verify'' NoOptions
                    (toast_error ''No ballot token found. Please verify your identity first.'' None w))
        else loadBallot msg (the tok) result (st\<lparr>ballotToken := the tok\<rparr>, w))"

text \<open>
  Modelled from the spec: the handler that records a selection, which lies after the
  point where the source of VotingPage breaks off. The spec: the user accumulates at
  most one candidate selection per position in local, in-memory state (mapping from
  position identifier to candidate identifier); no server round-trip occurs until
  explicit submission. The state it writes is \<^verbatim>\<open>votes\<close>, declared in the source as
  \<^verbatim>\<open>{ [positionId: string]: string }\<close>.
\<close>

definition handleVoteSelect ::
  "string \<Rightarrow> string \<Rightarrow> voting_state \<times> browser \<Rightarrow> voting_state \<times> browser" where
  "handleVoteSelect positionId candidateId = (\<lambda>(st, w).
     (st\<lparr>votes := (votes st)(positionId \<mapsto> candidateId)\<rparr>, w))"

text \<open>A run of selections, oldest first.\<close>

fun select_all ::
  "(string \<times> string) list \<Rightarrow> voting_state \<times> browser \<Rightarrow> voting_state \<times> browser" where
  "select_all [] s = s"
| "select_all ((p, c) # sels) s = select_all sels (handleVoteSelect p c s)"

text \<open>
  The candidates of a position are those whose \<^verbatim>\<open>position.id\<close> is the position's
  \<^verbatim>\<open>id\<close>; a ballot has an empty position when some position has none.
\<close>

definition candidates_of :: "Position \<Rightarrow> Candidate list \<Rightarrow> Candidate list" where
  "candidates_of p cs = filter (\<lambda>c. ref_id (cand_position c) = pos_id p) cs"

definition has_empty_position :: "BallotData \<Rightarrow> bool" where
  "has_empty_position b = list_ex (\<lambda>p. candidates_of p (candidates b) = []) (positions b)"

section \<open>The redirection table as the specification words it\<close>

text \<open>
  The claim about redirection after login gives a table from the role to a path:
  ADMIN, OFFICER and CANDIDATE go to their dashboards, every other value to the
  root. It is written down here once, to be compared with the two \<^verbatim>\<open>switch\<close>
  statements of the source.
\<close>

definition spec_dashboard :: "string option \<Rightarrow> string" where
  "spec_dashboard r =
     (if r = Some ''ADMIN'' then ''/admin/dashboard''
      else if r = Some ''OFFICER'' then ''/officer/dashboard''
      else if r = Some ''CANDIDATE'' then ''/candidate/dashboard''
      else ''/'')"

section \<open>Inputs for the examples\<close>

definition env0 :: js_env where
  "env0 = \<lparr>stringify_user = (\<lambda>u. ''{user:'' @ user_email u @ ''}''),
           stringify_welcome = (\<lambda>m t. ''{message:'' @ m @ ''}''),
           now = 1700000000000\<rparr>"

definition browser0 :: browser where
  "browser0 = \<lparr>localStorage = Map.empty, sessionStorage = Map.empty,
               navigations = [], toasts = [], requests = []\<rparr>"

definition form0 :: form_state where
  "form0 = \<lparr>loading = False, error = []\<rparr>"

definition home0 :: home_state where
  "home0 = \<lparr>loading = False, error = [], showPassword = False, isVoter = None\<rparr>"

definition voting0 :: voting_state where
  "voting0 = \<lparr>loading = True, ballotToken = [], submitting = False,
              ballotData = None, votes = Map.empty\<rparr>"

definition officer_inactive :: login_response where
  "officer_inactive =
     \<lparr>token = ''jwt-1'',
      user = \<lparr>name = Some ''Okello'', user_email = ''okello@organization.com'',
              role = Some ''OFFICER'', status = Some ''INACTIVE''\<rparr>\<rparr>"

definition admin_active :: login_response where
  "admin_active =
     \<lparr>token = ''jwt-2'',
      user = \<lparr>name = None, user_email = ''admin@organization.com'',
              role = Some ''ADMIN'', status = Some ''ACTIVE''\<rparr>\<rparr>"

definition error_503 :: api_error where
  "error_503 = \<lparr>err_code = None, err_status = Some 503, err_data_error = None,
                err_message = Some ''Request failed with status code 503''\<rparr>"

definition error_401 :: api_error where
  "error_401 = \<lparr>err_code = None, err_status = Some 401, err_data_error = None,
                err_message = Some ''Request failed with status code 401''\<rparr>"

definition president :: Position where
  "president = \<lparr>pos_id = ''p1'', pos_name = ''President'', seats = 1,
                votingOpens = ''2025-11-01T08:00:00Z'', votingCloses = ''2025-11-01T17:00:00Z''\<rparr>"

definition secretary :: Position where
  "secretary = \<lparr>pos_id = ''p2'', pos_name = ''Secretary'', seats = 1,
                votingOpens = ''2025-11-01T08:00:00Z'', votingCloses = ''2025-11-01T17:00:00Z''\<rparr>"

definition amina :: Candidate where
  "amina = \<lparr>cand_id = ''c1'', cand_name = ''Amina'', program = ''Transparency'',
            photoUrl = None, cand_status = ''APPROVED'',
            cand_position = \<lparr>ref_id = ''p1'', ref_name = ''President''\<rparr>\<rparr>"

definition ballot_one_empty :: ballot_response where
  "ballot_one_empty = \<lparr>resp_positions = Some [president, secretary],
                       resp_candidates = Some [amina]\<rparr>"

definition ballot_no_candidates :: ballot_response where
  "ballot_no_candidates = \<lparr>resp_positions = Some [president, secretary],
                           resp_candidates = Some []\<rparr>"

definition static0 :: "string \<rightharpoonup> string" where
  "static0 = [''/'' \<mapsto> ''/srv/dist/index.html'',
             ''/index.html'' \<mapsto> ''/srv/dist/index.html'',
             ''/assets/index-4f2a9c.js'' \<mapsto> ''/srv/dist/assets/index-4f2a9c.js'']"

definition voter_error :: api_error where
  "voter_error = \<lparr>err_code = None, err_status = Some 404,
                  err_data_error = Some ''Registration number not found'',
                  err_message = Some ''Request failed with status code 404''\<rparr>"

definition loc_with_token :: location where
  "loc_with_token = \<lparr>loc_state = Some \<lparr>state_ballotToken = Some ''nav-token''\<rparr>\<rparr>"

definition loc_plain :: location where
  "loc_plain = \<lparr>loc_state = None\<rparr>"

definition browser_with_token :: browser where
  "browser_with_token = browser0\<lparr>localStorage := [''ballotToken'' \<mapsto> ''stored-token'']\<rparr>"

definition voter_form :: UnifiedLoginFormData where
  "voter_form = \<lparr>form_identifier = ''M24B13/054'', opt_password = None\<rparr>"

definition officer_form :: UnifiedLoginFormData where
  "officer_form = \<lparr>form_identifier = ''okello@organization.com'', opt_password = Some ''secret1''\<rparr>"

definition admin_form :: LoginFormData where
  "admin_form = \<lparr>email = ''admin@organization.com'', password = ''secret2''\<rparr>"

section \<open>Properties of the static server\<close>

lemma html_not_js_css:
  assumes "endsWith p ''.html''"
  shows "\<not> matches_js_css p"
proof -
  from assms obtain a where a: "p = a @ ''.html''"
    by (auto simp: endsWith_def suffix_def)
  then have "last p = CHR ''l''" by simp
  moreover have "last p = CHR ''s''" if "matches_js_css p"
    using that by (auto simp: matches_js_css_def endsWith_def suffix_def)
  ultimately show ?thesis by auto
qed

text \<open>
  The callback of the static middleware leaves
  \<open>Cache-Control: public, max-age=0, must-revalidate\<close> when the path ends in
  \<open>.html\<close> and \<open>Cache-Control: public, max-age=31536000, immutable\<close> when it ends
  in \<open>.js\<close> or \<open>.css\<close>, whatever the headers were before.
\<close>

theorem setHeaders_cache_control:
  "(endsWith p ''.html'' \<longrightarrow>
      setHeaders res p ''Cache-Control'' = Some ''public, max-age=0, must-revalidate'') \<and>
   (endsWith p ''.js'' \<or> endsWith p ''.css'' \<longrightarrow>
      setHeaders res p ''Cache-Control'' = Some ''public, max-age=31536000, immutable'')"
proof (intro conjI impI)
  assume h: "endsWith p ''.html''"
  then have "\<not> matches_js_css p" by (rule html_not_js_css)
  with h show "setHeaders res p ''Cache-Control'' = Some ''public, max-age=0, must-revalidate''"
    by (simp add: setHeaders_def setHeader_def)
next
  assume "endsWith p ''.js'' \<or> endsWith p ''.css''"
  then have "matches_js_css p" by (simp add: matches_js_css_def)
  then show "setHeaders res p ''Cache-Control'' = Some ''public, max-age=31536000, immutable''"
    by (simp add: setHeaders_def setHeader_def Let_def)
qed

text \<open>
  The callback at the entry document, and at a style sheet that already carries a
  one-year header.
\<close>

theorem setHeaders_cache_control_witness:
  "endsWith ''/srv/dist/index.html'' ''.html'' \<and>
   setHeaders Map.empty ''/srv/dist/index.html'' ''Cache-Control''
     = Some ''public, max-age=0, must-revalidate'' \<and>
   endsWith ''/srv/dist/assets/app.css'' ''.css'' \<and>
   setHeaders [''Cache-Control'' \<mapsto> ''public, max-age=31536000'']
      ''/srv/dist/assets/app.css'' ''Cache-Control''
     = Some ''public, max-age=31536000, immutable''"
proof -
  have a: "endsWith ''/srv/dist/index.html'' ''.html''"
    by (simp add: endsWith_def suffix_to_prefix)
  have b: "endsWith ''/srv/dist/assets/app.css'' ''.css''"
    by (simp add: endsWith_def suffix_to_prefix)
  from a b
    setHeaders_cache_control [of "''/srv/dist/index.html''" Map.empty]
    setHeaders_cache_control
      [of "''/srv/dist/assets/app.css''" "[''Cache-Control'' \<mapsto> ''public, max-age=31536000'']"]
  show ?thesis by blast
qed

text \<open>
  So a file ending in \<open>.html\<close> that the static middleware serves goes out with
  \<open>must-revalidate\<close>: the library finds the header set and keeps it.
\<close>

lemma server_static_html:
  assumes "static_lookup req_path = Some file" and "endsWith file ''.html''"
  shows "\<exists>h. server dirname static_lookup req_path res = SentFile file h \<and>
             h ''Cache-Control'' = Some ''public, max-age=0, must-revalidate''"
proof -
  from assms(2) have "\<not> matches_js_css file" by (rule html_not_js_css)
  with assms show ?thesis
    by (simp add: server_def send_file_def setHeaders_def setHeader_def truthy_def)
qed

text \<open>
  C8. The claim asks for \<open>Cache-Control: public, max-age=0, must-revalidate\<close>
  on every served file whose path ends in \<open>.html\<close>. The server does not do this
  for the entry document when it answers a client-side route: the request
  \<open>/about\<close> resolves to no file under \<open>dist\<close>, the catch-all handler sends
  \<open>dist/index.html\<close> without the callback, and the response carries
  \<open>public, max-age=0\<close> only. The same file requested as \<open>/index.html\<close> goes
  through the static middleware and carries \<open>must-revalidate\<close>.
\<close>

theorem fallback_entry_document_header:
  "static0 ''/about'' = None \<and>
   endsWith ''/srv/dist/index.html'' ''.html'' \<and>
   server ''/srv'' static0 ''/about'' Map.empty
     = SentFile ''/srv/dist/index.html'' [''Cache-Control'' \<mapsto> ''public, max-age=0''] \<and>
   server ''/srv'' static0 ''/index.html'' Map.empty
     = SentFile ''/srv/dist/index.html''
         [''Cache-Control'' \<mapsto> ''public, max-age=0, must-revalidate'']"
  by (simp add: server_def send_file_def setHeaders_def setHeader_def truthy_def static0_def
        endsWith_def matches_js_css_def suffix_to_prefix)

section \<open>Properties of the Login component\<close>

lemma navigations_Login_redirect:
  "navigations (Login_redirect r w) = navigations w @ [(spec_dashboard r, NoOptions)]"
  by (simp add: Login_redirect_def spec_dashboard_def navigate_def)

lemma navigations_HomePage_redirect:
  "navigations (HomePage_redirect r w) = navigations w @ [(spec_dashboard r, Replace)]"
  by (simp add: HomePage_redirect_def spec_dashboard_def navigate_def)

lemma navigations_setItem: "navigations (setItem k v w) = navigations w"
  by (simp add: setItem_def)

lemma navigations_call: "navigations (call r w) = navigations w"
  by (simp add: call_def)

text \<open>
  C10. When \<^verbatim>\<open>authAPI.login\<close> rejects, the Login component's handler leaves
  localStorage as it was, so writes none of \<open>token\<close>, \<open>user\<close> and
  \<open>welcomeMessage\<close>, makes no navigation, and sets the error message that the
  \<^verbatim>\<open>catch\<close> block computes; and whatever the outcome of the call, resolved or
  rejected, the handler ends with \<open>loading\<close> false.
\<close>

theorem Login_failure_leaves_storage:
  "localStorage (snd (Login_onSubmit env data (Rejected err) (st, w))) = localStorage w \<and>
   navigations (snd (Login_onSubmit env data (Rejected err) (st, w))) = navigations w \<and>
   error (fst (Login_onSubmit env data (Rejected err) (st, w))) = login_error_message err \<and>
   loading (fst (Login_onSubmit env data result (st, w))) = False"
  by (cases result) (simp_all add: Login_onSubmit_def Let_def call_def)

text \<open>C10 at a 401 response without a message of the server, from an empty storage.\<close>

theorem Login_failure_leaves_storage_witness:
  "localStorage (snd (Login_onSubmit env0 admin_form (Rejected error_401) (form0, browser0)))
     ''token'' = None \<and>
   error (fst (Login_onSubmit env0 admin_form (Rejected error_401) (form0, browser0)))
     = ''Invalid email or password.'' \<and>
   loading (fst (Login_onSubmit env0 admin_form (Resolved admin_active) (form0, browser0))) = False"
  using Login_failure_leaves_storage [of env0 admin_form error_401 form0 browser0 "Resolved admin_active"]
  by (simp add: login_error_message_def error_401_def or_else_def browser0_def)

section \<open>Properties of the unified login page\<close>

lemma str_includes_char: "str_includes s [c] \<longleftrightarrow> c \<in> set s"
proof
  assume "str_includes s [c]"
  then obtain ps ss where "s = ps @ [c] @ ss"
    by (auto simp: str_includes_def sublist_def)
  then show "c \<in> set s" by simp
next
  assume "c \<in> set s"
  then obtain ps ss where "s = ps @ c # ss" by (auto dest: split_list)
  then have "s = ps @ [c] @ ss" by simp
  then show "str_includes s [c]"
    unfolding str_includes_def sublist_def by blast
qed

lemma isRegistrationNumber_iff: "isRegistrationNumber s \<longleftrightarrow> CHR ''@'' \<notin> set s"
  by (simp add: isRegistrationNumber_def str_includes_char)

text \<open>The four ways through the handler, one equation each.\<close>

lemma HomePage_voter:
  assumes "CHR ''@'' \<notin> set (form_identifier d)"
  shows "HomePage_onSubmit env d otp lr (st, w) =
     (case otp of
        Resolved _ \<Rightarrow>
          (st\<lparr>error := [], loading := False\<rparr>,
           navigate ''/verify'' (VerifyState (form_identifier d) True True)
             (session_setItem ''otpAlreadySent'' ''true''
               (session_setItem ''pendingRegNo'' (form_identifier d)
                 (call (RequestOTP (form_identifier d)) w))))
      | Rejected err \<Rightarrow>
          (st\<lparr>error := or_else (err_data_error err) ''Failed to send OTP. Please try again.'',
              loading := False\<rparr>,
           call (RequestOTP (form_identifier d)) w))"
  using assms
  by (simp add: HomePage_onSubmit_def isRegistrationNumber_iff Let_def split: outcome.splits)

lemma HomePage_no_password:
  assumes "CHR ''@'' \<in> set (form_identifier d)" and "\<not> truthy (opt_password d)"
  shows "HomePage_onSubmit env d otp lr (st, w) =
           (st\<lparr>error := ''Password is required for email login'', loading := False\<rparr>, w)"
  using assms
  by (simp add: HomePage_onSubmit_def isRegistrationNumber_iff Let_def)

lemma HomePage_login_rejected:
  assumes "CHR ''@'' \<in> set (form_identifier d)" and "truthy (opt_password d)"
  shows "HomePage_onSubmit env d otp (Rejected err) (st, w) =
           (st\<lparr>error := HomePage_error_message err, loading := False\<rparr>,
            call (LoginRequest (form_identifier d) (the (opt_password d))) w)"
  using assms
  by (simp add: HomePage_onSubmit_def isRegistrationNumber_iff Let_def)

lemma HomePage_login_deactivated:
  assumes "CHR ''@'' \<in> set (form_identifier d)" and "truthy (opt_password d)"
    and "role (user resp) = Some ''OFFICER''" and "status (user resp) = Some ''INACTIVE''"
  shows "HomePage_onSubmit env d otp (Resolved resp) (st, w) =
           (st\<lparr>error := deactivated_message, loading := False\<rparr>,
            removeItem ''user'' (removeItem ''token''
              (call (LoginRequest (form_identifier d) (the (opt_password d))) w)))"
  using assms
  by (simp add: HomePage_onSubmit_def isRegistrationNumber_iff Let_def)

lemma HomePage_login_accepted:
  assumes "CHR ''@'' \<in> set (form_identifier d)" and "truthy (opt_password d)"
    and "\<not> (role (user resp) = Some ''OFFICER'' \<and> status (user resp) = Some ''INACTIVE'')"
  shows "HomePage_onSubmit env d otp (Resolved resp) (st, w) =
           (st\<lparr>error := [], loading := False\<rparr>,
            HomePage_redirect (role (user resp))
              (setItem ''welcomeMessage''
                 (stringify_welcome env
                    (welcome_text (or_else (name (user resp)) (before_at (user_email (user resp))))
                       (HomePage_welcomeEmoji (role (user resp))))
                    (now env))
                 (setItem ''user'' (stringify_user env (user resp))
                    (setItem ''token'' (token resp)
                       (call (LoginRequest (form_identifier d) (the (opt_password d))) w)))))"
  using assms
  by (auto simp add: HomePage_onSubmit_def isRegistrationNumber_iff Let_def)

text \<open>
  C5, as the claim has it, fails: a registration number whose OTP request is
  rejected leads to no navigation. The identifier has no \<open>@\<close>, the request is
  made, the list of navigations stays empty, and the page shows the error of the
  failed request instead.
\<close>

theorem otp_rejected_no_navigation:
  "isRegistrationNumber (form_identifier voter_form) \<and>
   requests (snd (HomePage_onSubmit env0 voter_form (Rejected error_503) (Rejected error_503)
                    (home0, browser0)))
     = [RequestOTP ''M24B13/054''] \<and>
   navigations (snd (HomePage_onSubmit env0 voter_form (Rejected error_503) (Rejected error_503)
                       (home0, browser0))) = [] \<and>
   error (fst (HomePage_onSubmit env0 voter_form (Rejected error_503) (Rejected error_503)
                 (home0, browser0)))
     = ''Failed to send OTP. Please try again.''"
  by (simp add: HomePage_voter isRegistrationNumber_iff call_def browser0_def voter_form_def
        error_503_def or_else_def)

text \<open>
  C5, amended. A submitted identifier is taken for a registration number exactly
  when it has no \<open>@\<close>. Then one OTP request is made for it. When that request
  resolves, the page navigates to \<open>/verify\<close> and shows no error. When it is
  rejected, the page does not navigate and shows an error: the message of the
  server if the rejection carries one, otherwise
  \<open>Failed to send OTP. Please try again.\<close> If the identifier has an \<open>@\<close> it is
  taken for an email: no OTP request is made, the login request is sent when a
  password was entered, and no request at all is made when none was.
\<close>

theorem HomePage_identifier_branch:
  "(isRegistrationNumber (form_identifier d) \<longleftrightarrow> CHR ''@'' \<notin> set (form_identifier d)) \<and>
   (CHR ''@'' \<notin> set (form_identifier d) \<longrightarrow>
      requests (snd (HomePage_onSubmit env d otp lr (st, w)))
        = requests w @ [RequestOTP (form_identifier d)] \<and>
      navigations (snd (HomePage_onSubmit env d otp lr (st, w)))
        = navigations w @
            (case otp of
               Resolved _ \<Rightarrow> [(''/verify'', VerifyState (form_identifier d) True True)]
             | Rejected _ \<Rightarrow> []) \<and>
      error (fst (HomePage_onSubmit env d otp lr (st, w)))
        = (case otp of
             Resolved _ \<Rightarrow> []
           | Rejected err \<Rightarrow>
               or_else (err_data_error err) ''Failed to send OTP. Please try again.'')) \<and>
   (CHR ''@'' \<in> set (form_identifier d) \<longrightarrow>
      requests (snd (HomePage_onSubmit env d otp lr (st, w)))
        = requests w @
            (if truthy (opt_password d)
             then [LoginRequest (form_identifier d) (the (opt_password d))] else []))"
proof (intro conjI impI)
  show "isRegistrationNumber (form_identifier d) \<longleftrightarrow> CHR ''@'' \<notin> set (form_identifier d)"
    by (rule isRegistrationNumber_iff)
next
  assume v: "CHR ''@'' \<notin> set (form_identifier d)"
  show "requests (snd (HomePage_onSubmit env d otp lr (st, w)))
        = requests w @ [RequestOTP (form_identifier d)]"
    by (cases otp)
       (simp_all add: HomePage_voter [OF v] navigate_def session_setItem_def call_def)
  show "navigations (snd (HomePage_onSubmit env d otp lr (st, w)))
        = navigations w @
            (case otp of
               Resolved _ \<Rightarrow> [(''/verify'', VerifyState (form_identifier d) True True)]
             | Rejected _ \<Rightarrow> [])"
    by (cases otp)
       (simp_all add: HomePage_voter [OF v] navigate_def session_setItem_def call_def)
  show "error (fst (HomePage_onSubmit env d otp lr (st, w)))
        = (case otp of
             Resolved _ \<Rightarrow> []
           | Rejected err \<Rightarrow>
               or_else (err_data_error err) ''Failed to send OTP. Please try again.'')"
    by (cases otp) (simp_all add: HomePage_voter [OF v])
next
  assume e: "CHR ''@'' \<in> set (form_identifier d)"
  show "requests (snd (HomePage_onSubmit env d otp lr (st, w)))
        = requests w @
            (if truthy (opt_password d)
             then [LoginRequest (form_identifier d) (the (opt_password d))] else [])"
  proof (cases "truthy (opt_password d)")
    case False
    then show ?thesis by (simp add: HomePage_no_password [OF e])
  next
    case pw: True
    show ?thesis
    proof (cases lr)
      case (Rejected err)
      then show ?thesis
        by (simp add: pw HomePage_login_rejected [OF e pw] call_def)
    next
      case (Resolved resp)
      show ?thesis
      proof (cases "role (user resp) = Some ''OFFICER'' \<and> status (user resp) = Some ''INACTIVE''")
        case True
        then show ?thesis
          using HomePage_login_deactivated [OF e pw, of resp env otp st w]
          by (simp add: Resolved pw removeItem_def call_def)
      next
        case False
        then show ?thesis
          using HomePage_login_accepted [OF e pw False, of env otp st w]
          by (simp add: Resolved pw HomePage_redirect_def navigate_def setItem_def call_def)
      qed
    qed
  qed
qed

text \<open>
  The amended C5 at a registration number whose OTP request resolves, at the same
  number when the server rejects the request with a message, and at an email with a
  password.
\<close>

theorem HomePage_identifier_branch_witness:
  "CHR ''@'' \<notin> set (form_identifier voter_form) \<and>
   requests (snd (HomePage_onSubmit env0 voter_form (Resolved ()) (Resolved admin_active)
                    (home0, browser0)))
     = [RequestOTP ''M24B13/054''] \<and>
   navigations (snd (HomePage_onSubmit env0 voter_form (Resolved ()) (Resolved admin_active)
                       (home0, browser0)))
     = [(''/verify'', VerifyState ''M24B13/054'' True True)] \<and>
   error (fst (HomePage_onSubmit env0 voter_form (Resolved ()) (Resolved admin_active)
                 (home0, browser0))) = [] \<and>
   navigations (snd (HomePage_onSubmit env0 voter_form (Rejected voter_error) (Resolved admin_active)
                       (home0, browser0))) = [] \<and>
   error (fst (HomePage_onSubmit env0 voter_form (Rejected voter_error) (Resolved admin_active)
                 (home0, browser0))) = ''Registration number not found'' \<and>
   CHR ''@'' \<in> set (form_identifier officer_form) \<and>
   requests (snd (HomePage_onSubmit env0 officer_form (Resolved ()) (Resolved admin_active)
                    (home0, browser0)))
     = [LoginRequest ''okello@organization.com'' ''secret1'']"
  using HomePage_identifier_branch
          [of voter_form env0 "Resolved ()" "Resolved admin_active" home0 browser0]
        HomePage_identifier_branch
          [of voter_form env0 "Rejected voter_error" "Resolved admin_active" home0 browser0]
        HomePage_identifier_branch
          [of officer_form env0 "Resolved ()" "Resolved admin_active" home0 browser0]
  by (simp add: voter_form_def officer_form_def browser0_def truthy_def voter_error_def
        or_else_def)

text \<open>
  C7, as the claim has it, fails on the unified login page: the login of an officer
  whose status is INACTIVE resolves, and no navigation follows, where the claim
  sends the role OFFICER to \<open>/officer/dashboard\<close>.
\<close>

theorem inactive_officer_not_redirected:
  "role (user officer_inactive) = Some ''OFFICER'' \<and>
   requests (snd (HomePage_onSubmit env0 officer_form (Resolved ()) (Resolved officer_inactive)
                    (home0, browser0)))
     = [LoginRequest ''okello@organization.com'' ''secret1''] \<and>
   navigations (snd (HomePage_onSubmit env0 officer_form (Resolved ()) (Resolved officer_inactive)
                       (home0, browser0))) = []"
  by (simp add: HomePage_login_deactivated truthy_def officer_inactive_def officer_form_def
        removeItem_def call_def browser0_def)

text \<open>
  C7, amended. When the login call resolves, the Login component navigates to the
  path that the table gives for the role of the returned user, and to nothing else.
  The unified login page does the same, replacing the history entry, for an email
  identifier with a password, unless the returned user is an OFFICER whose status is
  INACTIVE.
\<close>

theorem role_decides_dashboard:
  "navigations (snd (Login_onSubmit env data (Resolved resp) (st, w)))
     = navigations w @ [(spec_dashboard (role (user resp)), NoOptions)] \<and>
   (CHR ''@'' \<in> set (form_identifier d) \<and> truthy (opt_password d) \<and>
    \<not> (role (user resp) = Some ''OFFICER'' \<and> status (user resp) = Some ''INACTIVE'') \<longrightarrow>
      navigations (snd (HomePage_onSubmit env d otp (Resolved resp) (hst, hw)))
        = navigations hw @ [(spec_dashboard (role (user resp)), Replace)])"
proof (intro conjI impI)
  show "navigations (snd (Login_onSubmit env data (Resolved resp) (st, w)))
     = navigations w @ [(spec_dashboard (role (user resp)), NoOptions)]"
    by (simp add: Login_onSubmit_def Let_def navigations_Login_redirect navigations_setItem
          navigations_call)
next
  assume a: "CHR ''@'' \<in> set (form_identifier d) \<and> truthy (opt_password d) \<and>
    \<not> (role (user resp) = Some ''OFFICER'' \<and> status (user resp) = Some ''INACTIVE'')"
  then show "navigations (snd (HomePage_onSubmit env d otp (Resolved resp) (hst, hw)))
        = navigations hw @ [(spec_dashboard (role (user resp)), Replace)]"
    using HomePage_login_accepted [of d resp env otp hst hw]
    by (simp add: navigations_HomePage_redirect navigations_setItem navigations_call)
qed

text \<open>The amended C7 at an administrator, on both pages.\<close>

theorem role_decides_dashboard_witness:
  "navigations (snd (Login_onSubmit env0 admin_form (Resolved admin_active) (form0, browser0)))
     = [(''/admin/dashboard'', NoOptions)] \<and>
   CHR ''@'' \<in> set (form_identifier officer_form) \<and> truthy (opt_password officer_form) \<and>
   \<not> (role (user admin_active) = Some ''OFFICER'' \<and> status (user admin_active) = Some ''INACTIVE'') \<and>
   navigations (snd (HomePage_onSubmit env0 officer_form (Resolved ()) (Resolved admin_active)
                       (home0, browser0)))
     = [(''/admin/dashboard'', Replace)]"
  using role_decides_dashboard
          [of env0 admin_form admin_active form0 browser0 officer_form "Resolved ()" home0 browser0]
  by (simp add: spec_dashboard_def admin_active_def officer_form_def browser0_def truthy_def)

text \<open>
  C9. On the unified login page, when the login of an email identifier with a
  password resolves with a user whose role is OFFICER and whose status is INACTIVE,
  the deactivation message is set as the error, \<open>loading\<close> is false, the keys
  \<open>token\<close> and \<open>user\<close> are absent from localStorage, and no navigation is made.
\<close>

theorem HomePage_deactivated_officer:
  assumes "CHR ''@'' \<in> set (form_identifier d)" and "truthy (opt_password d)"
    and "role (user resp) = Some ''OFFICER''" and "status (user resp) = Some ''INACTIVE''"
  shows "error (fst (HomePage_onSubmit env d otp (Resolved resp) (st, w))) = deactivated_message \<and>
         loading (fst (HomePage_onSubmit env d otp (Resolved resp) (st, w))) = False \<and>
         localStorage (snd (HomePage_onSubmit env d otp (Resolved resp) (st, w))) ''token'' = None \<and>
         localStorage (snd (HomePage_onSubmit env d otp (Resolved resp) (st, w))) ''user'' = None \<and>
         navigations (snd (HomePage_onSubmit env d otp (Resolved resp) (st, w))) = navigations w"
  by (simp add: HomePage_login_deactivated [OF assms] removeItem_def call_def)

text \<open>C9 at an inactive officer, with a token of an earlier session still stored.\<close>

theorem HomePage_deactivated_officer_witness:
  "CHR ''@'' \<in> set (form_identifier officer_form) \<and> truthy (opt_password officer_form) \<and>
   role (user officer_inactive) = Some ''OFFICER'' \<and>
   status (user officer_inactive) = Some ''INACTIVE'' \<and>
   error (fst (HomePage_onSubmit env0 officer_form (Resolved ()) (Resolved officer_inactive)
                 (home0, setItem ''token'' ''jwt-0'' browser0)))
     = ''Your account has been deactivated. Please contact the administrator for assistance.'' \<and>
   localStorage (snd (HomePage_onSubmit env0 officer_form (Resolved ()) (Resolved officer_inactive)
                        (home0, setItem ''token'' ''jwt-0'' browser0))) ''token'' = None \<and>
   navigations (snd (HomePage_onSubmit env0 officer_form (Resolved ()) (Resolved officer_inactive)
                       (home0, setItem ''token'' ''jwt-0'' browser0))) = []"
proof -
  have a: "CHR ''@'' \<in> set (form_identifier officer_form)"
    and b: "truthy (opt_password officer_form)"
    and c: "role (user officer_inactive) = Some ''OFFICER''"
    and d: "status (user officer_inactive) = Some ''INACTIVE''"
    by (simp_all add: officer_form_def officer_inactive_def truthy_def)
  from a b c d
    HomePage_deactivated_officer [OF a b c d, of env0 "Resolved ()" home0
      "setItem ''token'' ''jwt-0'' browser0"]
  show ?thesis
    by (simp add: deactivated_message_def setItem_def browser0_def)
qed

section \<open>Properties of the ballot page\<close>

lemma loadBallot_requests:
  "requests (snd (loadBallot msg tok result (st, w))) = requests w @ [GetBallot tok]"
  by (cases result)
     (simp_all add: loadBallot_def loadBallot_other_failure_def Let_def call_def
        toast_error_def navigate_def removeItem_def)

lemma loadBallot_ballotToken:
  "ballotToken (fst (loadBallot msg tok result (st, w))) = ballotToken st"
  by (cases result)
     (simp_all add: loadBallot_def loadBallot_other_failure_def Let_def)

text \<open>
  C1. At mount, a non-empty token in the navigation state becomes the ballot token
  and is the one the ballot is fetched with, whatever localStorage holds; when the
  navigation state has none, a non-empty token under the localStorage key
  \<open>ballotToken\<close> is used in the same way.
\<close>

theorem mount_token_precedence:
  "(location_ballotToken loc = Some t \<and> t \<noteq> [] \<longrightarrow>
      ballotToken (fst (VotingPage_mount msg loc result (st, w))) = t \<and>
      requests (snd (VotingPage_mount msg loc result (st, w))) = requests w @ [GetBallot t]) \<and>
   (\<not> truthy (location_ballotToken loc) \<and> getItem w ''ballotToken'' = Some s \<and> s \<noteq> [] \<longrightarrow>
      ballotToken (fst (VotingPage_mount msg loc result (st, w))) = s \<and>
      requests (snd (VotingPage_mount msg loc result (st, w))) = requests w @ [GetBallot s])"
  by (simp add: VotingPage_mount_def js_or_def truthy_def loadBallot_requests
        loadBallot_ballotToken)

text \<open>
  C1 with a token in both places, where the one of the navigation state is used, and
  with a token in localStorage only.
\<close>

theorem mount_token_precedence_witness:
  "location_ballotToken loc_with_token = Some ''nav-token'' \<and>
   getItem browser_with_token ''ballotToken'' = Some ''stored-token'' \<and>
   ballotToken (fst (VotingPage_mount ''Failed to load ballot'' loc_with_token
                       (Resolved ballot_one_empty) (voting0, browser_with_token))) = ''nav-token'' \<and>
   requests (snd (VotingPage_mount ''Failed to load ballot'' loc_with_token
                    (Resolved ballot_one_empty) (voting0, browser_with_token)))
     = [GetBallot ''nav-token''] \<and>
   \<not> truthy (location_ballotToken loc_plain) \<and>
   requests (snd (VotingPage_mount ''Failed to load ballot'' loc_plain
                    (Resolved ballot_one_empty) (voting0, browser_with_token)))
     = [GetBallot ''stored-token'']"
  using mount_token_precedence
          [of loc_with_token "''nav-token''" "''Failed to load ballot''"
              "Resolved ballot_one_empty" voting0 browser_with_token]
        mount_token_precedence
          [of loc_plain _ "''Failed to load ballot''" "Resolved ballot_one_empty" voting0
              browser_with_token "''stored-token''"]
  by (simp add: location_ballotToken_def loc_with_token_def loc_plain_def
        browser_with_token_def browser0_def getItem_def truthy_def)

text \<open>
  C2. At mount, when neither the navigation state nor localStorage gives a token,
  the page state is left as it was, one error notification is shown, the page
  navigates to \<open>/verify\<close>, and no request is made.
\<close>

theorem mount_without_token:
  assumes "\<not> truthy (location_ballotToken loc)" and "\<not> truthy (getItem w ''ballotToken'')"
  shows "fst (VotingPage_mount msg loc result (st, w)) = st \<and>
         toasts (snd (VotingPage_mount msg loc result (st, w)))
           = toasts w @ [ToastError ''No ballot token found. Please verify your identity first.'' None] \<and>
         navigations (snd (VotingPage_mount msg loc result (st, w)))
           = navigations w @ [(''/verify'', NoOptions)] \<and>
         requests (snd (VotingPage_mount msg loc result (st, w))) = requests w"
  using assms
  by (simp add: VotingPage_mount_def js_or_def navigate_def toast_error_def)

text \<open>C2 at a fresh browser and a location without state.\<close>

theorem mount_without_token_witness:
  "\<not> truthy (location_ballotToken loc_plain) \<and> \<not> truthy (getItem browser0 ''ballotToken'') \<and>
   navigations (snd (VotingPage_mount ''Failed to load ballot'' loc_plain
                       (Resolved ballot_one_empty) (voting0, browser0)))
     = [(''/verify'', NoOptions)] \<and>
   requests (snd (VotingPage_mount ''Failed to load ballot'' loc_plain
                    (Resolved ballot_one_empty) (voting0, browser0))) = []"
proof -
  have a: "\<not> truthy (location_ballotToken loc_plain)"
    and b: "\<not> truthy (getItem browser0 ''ballotToken'')"
    by (simp_all add: location_ballotToken_def loc_plain_def getItem_def browser0_def truthy_def)
  from a b
    mount_without_token [OF a b, of "''Failed to load ballot''" "Resolved ballot_one_empty" voting0]
  show ?thesis by (simp add: browser0_def)
qed

text \<open>
  C3. When the ballot request is rejected with status 401 or 400, the key
  \<open>ballotToken\<close> is absent from localStorage afterwards and the page navigates to
  \<open>/verify\<close>. For every other rejection one notification is added, there is no
  navigation, localStorage is as before, and the selections are the ones held
  before.
\<close>

theorem loadBallot_failure:
  "(err_status err = Some 401 \<or> err_status err = Some 400 \<longrightarrow>
      localStorage (snd (loadBallot msg tok (Rejected err) (st, w))) ''ballotToken'' = None \<and>
      navigations (snd (loadBallot msg tok (Rejected err) (st, w)))
        = navigations w @ [(''/verify'', NoOptions)]) \<and>
   (err_status err \<noteq> Some 401 \<and> err_status err \<noteq> Some 400 \<longrightarrow>
      toasts (snd (loadBallot msg tok (Rejected err) (st, w))) = toasts w @ [ToastError msg None] \<and>
      navigations (snd (loadBallot msg tok (Rejected err) (st, w))) = navigations w \<and>
      localStorage (snd (loadBallot msg tok (Rejected err) (st, w))) = localStorage w \<and>
      votes (fst (loadBallot msg tok (Rejected err) (st, w))) = votes st)"
  by (simp add: loadBallot_def loadBallot_other_failure_def Let_def call_def
        toast_error_def navigate_def removeItem_def)

text \<open>C3 at a 401 with the token stored, and at a 503.\<close>

theorem loadBallot_failure_witness:
  "err_status error_401 = Some 401 \<and>
   localStorage browser_with_token ''ballotToken'' = Some ''stored-token'' \<and>
   localStorage (snd (loadBallot ''Failed to load ballot'' ''stored-token'' (Rejected error_401)
                        (voting0, browser_with_token))) ''ballotToken'' = None \<and>
   navigations (snd (loadBallot ''Failed to load ballot'' ''stored-token'' (Rejected error_401)
                       (voting0, browser_with_token))) = [(''/verify'', NoOptions)] \<and>
   err_status error_503 \<noteq> Some 401 \<and> err_status error_503 \<noteq> Some 400 \<and>
   toasts (snd (loadBallot ''Failed to load ballot'' ''stored-token'' (Rejected error_503)
                  (voting0, browser_with_token))) = [ToastError ''Failed to load ballot'' None] \<and>
   localStorage (snd (loadBallot ''Failed to load ballot'' ''stored-token'' (Rejected error_503)
                        (voting0, browser_with_token))) ''ballotToken'' = Some ''stored-token''"
  using loadBallot_failure
          [of error_401 "''Failed to load ballot''" "''stored-token''" voting0 browser_with_token]
        loadBallot_failure
          [of error_503 "''Failed to load ballot''" "''stored-token''" voting0 browser_with_token]
  by (simp add: error_401_def error_503_def browser_with_token_def browser0_def)

text \<open>
  C4, as the claim has it, fails: in a ballot of two positions where only the first
  has a candidate, the second position has none, and no notification is shown.
\<close>

theorem empty_position_without_warning:
  "ballotData (fst (loadBallot ''Failed to load ballot'' ''stored-token''
                      (Resolved ballot_one_empty) (voting0, browser0)))
     = Some \<lparr>positions = [president, secretary], candidates = [amina]\<rparr> \<and>
   has_empty_position \<lparr>positions = [president, secretary], candidates = [amina]\<rparr> \<and>
   toasts (snd (loadBallot ''Failed to load ballot'' ''stored-token''
                  (Resolved ballot_one_empty) (voting0, browser0))) = []"
  by (simp add: loadBallot_def Let_def call_def toast_error_def no_candidates_warning_def
        or_empty_def ballot_one_empty_def browser0_def voting0_def has_empty_position_def
        candidates_of_def president_def secretary_def amina_def)

text \<open>
  C4, amended. For every resolved response the ballot state is set to the positions
  and the candidates of the response, an absent list being taken as the empty list,
  and no navigation is made. When the response has at least one position and its
  list of candidates is there and empty, one warning notification is shown. When the
  list of candidates has an entry, or the response has no position, no notification
  is shown.
\<close>

theorem loadBallot_success:
  "ballotData (fst (loadBallot msg tok (Resolved r) (st, w)))
     = Some \<lparr>positions = or_empty (resp_positions r), candidates = or_empty (resp_candidates r)\<rparr> \<and>
   navigations (snd (loadBallot msg tok (Resolved r) (st, w))) = navigations w \<and>
   (or_empty (resp_positions r) \<noteq> [] \<and> resp_candidates r = Some [] \<longrightarrow>
      toasts (snd (loadBallot msg tok (Resolved r) (st, w)))
        = toasts w @ [ToastError ''No approved candidates available for voting yet.'' (Some 5000)]) \<and>
   (or_empty (resp_candidates r) \<noteq> [] \<or> or_empty (resp_positions r) = [] \<longrightarrow>
      toasts (snd (loadBallot msg tok (Resolved r) (st, w))) = toasts w)"
  by (auto simp add: loadBallot_def Let_def call_def toast_error_def no_candidates_warning_def
        or_empty_def split: option.splits)

text \<open>
  The amended C4 at a ballot of two positions and no candidate, and at the ballot of
  two positions with a candidate for the first only.
\<close>

theorem loadBallot_success_witness:
  "or_empty (resp_positions ballot_no_candidates) \<noteq> [] \<and>
   resp_candidates ballot_no_candidates = Some [] \<and>
   ballotData (fst (loadBallot ''Failed to load ballot'' ''stored-token''
                      (Resolved ballot_no_candidates) (voting0, browser0)))
     = Some \<lparr>positions = [president, secretary], candidates = []\<rparr> \<and>
   toasts (snd (loadBallot ''Failed to load ballot'' ''stored-token''
                  (Resolved ballot_no_candidates) (voting0, browser0)))
     = [ToastError ''No approved candidates available for voting yet.'' (Some 5000)] \<and>
   or_empty (resp_candidates ballot_one_empty) \<noteq> [] \<and>
   toasts (snd (loadBallot ''Failed to load ballot'' ''stored-token''
                  (Resolved ballot_one_empty) (voting0, browser0))) = []"
  using loadBallot_success
          [of "''Failed to load ballot''" "''stored-token''" ballot_no_candidates voting0 browser0]
        loadBallot_success
          [of "''Failed to load ballot''" "''stored-token''" ballot_one_empty voting0 browser0]
  by (simp add: ballot_no_candidates_def ballot_one_empty_def or_empty_def browser0_def)

lemma select_all_snd: "snd (select_all sels (st, w)) = w"
  by (induction sels arbitrary: st) (auto simp: handleVoteSelect_def)

lemma select_all_votes:
  "votes (fst (select_all sels (st, w))) = votes st ++ map_of (rev sels)"
proof (induction sels arbitrary: st)
  case Nil
  show ?case by simp
next
  case (Cons x sels)
  obtain p c where x: "x = (p, c)" by (cases x)
  have step: "select_all (x # sels) (st, w)
                = select_all sels (st\<lparr>votes := (votes st)(p \<mapsto> c)\<rparr>, w)"
    by (simp add: x handleVoteSelect_def)
  have "votes (fst (select_all (x # sels) (st, w)))
          = (votes st)(p \<mapsto> c) ++ map_of (rev sels)"
    unfolding step Cons.IH by simp
  also have "\<dots> = votes st ++ map_of (rev (x # sels))"
    by (auto simp: x fun_eq_iff map_add_def split: option.splits)
  finally show ?case .
qed

text \<open>
  C6. After any run of selections the selection state is the state before with, for
  each position chosen in the run, the one candidate chosen last for it: a position
  never holds two candidates. The run makes no request.
\<close>

theorem selections_one_per_position:
  "votes (fst (select_all sels (st, w))) = votes st ++ map_of (rev sels) \<and>
   requests (snd (select_all sels (st, w))) = requests w"
  by (simp add: select_all_votes select_all_snd)

text \<open>C6 at three selections, two of them for the same position.\<close>

theorem selections_one_per_position_witness:
  "votes (fst (select_all [(''p1'', ''c1''), (''p2'', ''c7''), (''p1'', ''c2'')] (voting0, browser0)))
     ''p1'' = Some ''c2'' \<and>
   votes (fst (select_all [(''p1'', ''c1''), (''p2'', ''c7''), (''p1'', ''c2'')] (voting0, browser0)))
     ''p2'' = Some ''c7'' \<and>
   requests (snd (select_all [(''p1'', ''c1''), (''p2'', ''c7''), (''p1'', ''c2'')] (voting0, browser0)))
     = []"
  using selections_one_per_position
          [of "[(''p1'', ''c1''), (''p2'', ''c7''), (''p1'', ''c2'')]" voting0 browser0]
  by (simp add: voting0_def browser0_def map_add_def)

end
